theory Spec2Isabelle
  imports Main "HOL-Library.AList"
begin

section \<open>Convert Pro: the file conversion engine (lib/converters/index.js)\<close>

text \<open>
  A shallow embedding of the conversion engine: the format router \<open>getConverter\<close>, the
  facade \<open>convertFile\<close>, the process runner \<open>runFFmpeg\<close>, the seven strategies
  that the module declares, and the retention sweeper \<open>cleanupTempFiles\<close>.

  JavaScript strings are \<open>string\<close> (ASCII is assumed: case conversion and digits are the
  ASCII ones). A promise is its final \<open>outcome\<close>. The filesystem, the clock, the progress
  sink and the list of spawned processes are fields of an explicit \<open>state\<close>. What the
  external libraries (\<open>sharp\<close>, \<open>pdf-lib\<close>) and the external process do is a
  parameter of the function that calls them. Console output is not modelled.
\<close>

subsection \<open>Errors and promises\<close>

text \<open>
  What is thrown, and what a promise is rejected with. An error object has a message (a
  system error its code as well). JavaScript throws any value: \<open>ThrownValue\<close> is a value
  that is not an error object and has no property \<open>message\<close> (a string, for instance;
  the argument is its text), \<open>ThrownNull\<close> and \<open>ThrownUndefined\<close> are the two values
  that have no properties at all.
\<close>

datatype js_error =
    Error string
  | ReferenceError string
  | TypeError string
  | SystemError string string
  | ThrownValue string
  | ThrownNull
  | ThrownUndefined

text \<open>
  \<open>error.message\<close>: the message of an error object, undefined (\<open>None\<close>) for a value
  without that property; reading a property of null or of undefined throws a TypeError.
\<close>

fun message :: "js_error \<Rightarrow> js_error + string option" where
  "message (Error m) = Inr (Some m)"
| "message (ReferenceError m) = Inr (Some m)"
| "message (TypeError m) = Inr (Some m)"
| "message (SystemError code m) = Inr (Some m)"
| "message (ThrownValue v) = Inr None"
| "message ThrownNull = Inl (TypeError ''Cannot read properties of null (reading 'message')'')"
| "message ThrownUndefined =
     Inl (TypeError ''Cannot read properties of undefined (reading 'message')'')"

text \<open>A string or undefined inside a template literal.\<close>

fun template :: "string option \<Rightarrow> string" where
  "template (Some m) = m"
| "template None = ''undefined''"

datatype 'a outcome = Fulfilled 'a | Rejected js_error | Pending

fun is_Fulfilled :: "'a outcome \<Rightarrow> bool" where
  "is_Fulfilled (Fulfilled x) = True"
| "is_Fulfilled (Rejected e) = False"
| "is_Fulfilled Pending = False"

subsection \<open>Strings\<close>

definition to_lower_char :: "char \<Rightarrow> char" where
  "to_lower_char c =
     (case map_of (zip ''ABCDEFGHIJKLMNOPQRSTUVWXYZ'' ''abcdefghijklmnopqrstuvwxyz'') c of
        Some l \<Rightarrow> l
      | None \<Rightarrow> c)"

definition toLowerCase :: "string \<Rightarrow> string" where
  "toLowerCase s = map to_lower_char s"

definition digit_val :: "char \<Rightarrow> nat option" where
  "digit_val c = map_of (zip ''0123456789'' [0, 1, 2, 3, 4, 5, 6, 7, 8, 9]) c"

definition digit_char :: "nat \<Rightarrow> char" where
  "digit_char d = ''0123456789'' ! d"

text \<open>Number to string, as a template literal does it for an integer.\<close>

function show_digits :: "int \<Rightarrow> string" where
  "show_digits i =
     (if i < 10 then [digit_char (nat i)]
      else show_digits (i div 10) @ [digit_char (nat (i mod 10))])"
  by pat_completeness auto
termination
  by (relation "measure (\<lambda>i. nat i)") auto

declare show_digits.simps [simp del]

definition show_int :: "int \<Rightarrow> string" where
  "show_int i = (if i < 0 then CHR ''-'' # show_digits (- i) else show_digits i)"

text \<open>
  \<open>s.split(sep)\<close> for a non-empty separator: the pieces between the occurrences of
  \<open>sep\<close>, scanning from the left. The counter skips the rest of a separator just matched.
\<close>

fun split_go :: "string \<Rightarrow> nat \<Rightarrow> string \<Rightarrow> string \<Rightarrow> string list" where
  "split_go sep k acc [] = [rev acc]"
| "split_go sep (Suc k) acc (c # cs) = split_go sep k acc cs"
| "split_go sep 0 acc (c # cs) =
     (if take (length sep) (c # cs) = sep
      then rev acc # split_go sep (length sep - 1) [] cs
      else split_go sep 0 (c # acc) cs)"

definition split :: "string \<Rightarrow> string \<Rightarrow> string list" where
  "split sep s = split_go sep 0 [] s"

subsection \<open>Paths (Node's posix \<open>path\<close> module)\<close>

type_synonym path = string

text \<open>The components of a path: the pieces between its separators.\<close>

fun segs :: "string \<Rightarrow> string list" where
  "segs [] = [[]]"
| "segs (c # cs) =
     (if c = CHR ''/'' then [] # segs cs
      else (case segs cs of [] \<Rightarrow> [[c]] | s # ss \<Rightarrow> (c # s) # ss))"

text \<open>Components put together again, one separator between two of them.\<close>

fun unsegs :: "string list \<Rightarrow> string" where
  "unsegs [] = []"
| "unsegs [s] = s"
| "unsegs (s # t # ts) = s @ ''/'' @ unsegs (t # ts)"

text \<open>
  \<open>normalizeString\<close>, one component at a time: an empty component and \<open>.\<close> are
  dropped; \<open>..\<close> removes the component before it, unless there is none or it is \<open>..\<close>
  itself: then \<open>..\<close> is kept when the path is relative and dropped when it is absolute.
\<close>

definition dot_step :: "bool \<Rightarrow> string list \<Rightarrow> string \<Rightarrow> string list" where
  "dot_step allowAboveRoot res seg =
     (if seg = [] \<or> seg = ''.'' then res
      else if seg = ''..'' then
        (if res \<noteq> [] \<and> last res \<noteq> ''..'' then butlast res
         else if allowAboveRoot then res @ [''..''] else res)
      else res @ [seg])"

definition normalizeString :: "path \<Rightarrow> bool \<Rightarrow> string list" where
  "normalizeString p allowAboveRoot = foldl (dot_step allowAboveRoot) [] (segs p)"

text \<open>\<open>path.normalize\<close>: a trailing separator is kept, an empty result is \<open>.\<close>.\<close>

definition normalize_path :: "path \<Rightarrow> path" where
  "normalize_path p =
     (if p = [] then ''.''
      else let isAbsolute = (hd p = CHR ''/'');
               trailingSeparator = (last p = CHR ''/'');
               body = unsegs (normalizeString p (\<not> isAbsolute))
           in if body = []
              then (if isAbsolute then ''/'' else if trailingSeparator then ''./'' else ''.'')
              else (if isAbsolute then ''/'' else []) @ body
                     @ (if trailingSeparator then ''/'' else []))"

text \<open>
  \<open>path.join(...args)\<close>: the arguments that are not empty, joined by separators, and
  normalised; \<open>.\<close> when there is none.
\<close>

definition path_join :: "string list \<Rightarrow> path" where
  "path_join args =
     (let parts = filter (\<lambda>a. a \<noteq> []) args
      in if parts = [] then ''.'' else normalize_path (unsegs parts))"





text \<open>
  \<open>path.extname\<close>: from the last dot of the last path component to its end; empty when
  there is no dot, when the dot is the first character of the component, and for \<open>..\<close>.
\<close>

definition basename :: "path \<Rightarrow> string" where
  "basename p =
     rev (takeWhile (\<lambda>c. c \<noteq> CHR ''/'') (dropWhile (\<lambda>c. c = CHR ''/'') (rev p)))"

definition extname :: "path \<Rightarrow> string" where
  "extname p =
     (let b = basename p;
          e = rev (takeWhile (\<lambda>c. c \<noteq> CHR ''.'') (rev b));
          stem = take (length b - length e - 1) b
      in if CHR ''.'' \<notin> set b then ''''
         else if stem = [] then ''''
         else if b = ''..'' then ''''
         else CHR ''.'' # e)"

text \<open>The proper ancestors of a path, outermost first: its prefixes that end before a separator.\<close>

definition ancestors :: "path \<Rightarrow> path list" where
  "ancestors p = map (\<lambda>i. take i p) (filter (\<lambda>i. p ! i = CHR ''/'') [1..<length p])"

subsection \<open>The filesystem\<close>

text \<open>
  A filesystem is an association list from paths to nodes; a regular file has its content and
  its modification time (milliseconds), a directory its modification time. The paths are
  resolved ones, as \<open>path.join\<close> gives them from the working directory. The operations
  are those of \<open>fs/promises\<close> that the engine calls; each fails as the system call does
  on a missing path, on a directory where a file is expected and on a file where a directory
  is expected. Permissions and links are not modelled.
\<close>

datatype node = File string int | Dir int

type_synonym filesystem = "(path \<times> node) list"

fun is_File :: "node option \<Rightarrow> bool" where
  "is_File (Some (File c t)) = True"
| "is_File (Some (Dir t)) = False"
| "is_File None = False"

fun is_Dir :: "node option \<Rightarrow> bool" where
  "is_Dir (Some (Dir t)) = True"
| "is_Dir (Some (File c t)) = False"
| "is_Dir None = False"


definition quoted :: "string \<Rightarrow> string" where
  "quoted p = [CHR 0x27] @ p @ [CHR 0x27]"

definition enoent :: "string \<Rightarrow> path \<Rightarrow> js_error" where
  "enoent call p =
     SystemError ''ENOENT'' (''ENOENT: no such file or directory, '' @ call @ '' '' @ quoted p)"

definition enotdir :: "string \<Rightarrow> path \<Rightarrow> js_error" where
  "enotdir call p =
     SystemError ''ENOTDIR'' (''ENOTDIR: not a directory, '' @ call @ '' '' @ quoted p)"

definition eisdir :: "string \<Rightarrow> path \<Rightarrow> js_error" where
  "eisdir call p =
     SystemError ''EISDIR'' (''EISDIR: illegal operation on a directory, '' @ call @ '' '' @ quoted p)"

definition eexist :: "string \<Rightarrow> path \<Rightarrow> js_error" where
  "eexist call p =
     SystemError ''EEXIST'' (''EEXIST: file already exists, '' @ call @ '' '' @ quoted p)"

definition access :: "filesystem \<Rightarrow> path \<Rightarrow> js_error + unit" where
  "access fs p = (case map_of fs p of None \<Rightarrow> Inl (enoent ''access'' p) | Some n \<Rightarrow> Inr ())"

text \<open>
  \<open>fs.mkdir(p, { recursive: true })\<close>: creates \<open>p\<close> and its missing ancestors; no error
  when \<open>p\<close> is a directory already; fails when \<open>p\<close> or one of its ancestors is a regular file.
\<close>

definition mkdir_recursive :: "filesystem \<Rightarrow> int \<Rightarrow> path \<Rightarrow> js_error + filesystem" where
  "mkdir_recursive fs now p =
     (if is_File (map_of fs p) then Inl (eexist ''mkdir'' p)
      else if list_ex (\<lambda>a. is_File (map_of fs a)) (ancestors p) then Inl (enotdir ''mkdir'' p)
      else Inr (fold (\<lambda>d acc. case map_of acc d of
                                 None \<Rightarrow> AList.update d (Dir now) acc
                               | Some n \<Rightarrow> acc)
                     (ancestors p @ [p]) fs))"

definition unlink :: "filesystem \<Rightarrow> path \<Rightarrow> js_error + filesystem" where
  "unlink fs p =
     (case map_of fs p of
        None \<Rightarrow> Inl (enoent ''unlink'' p)
      | Some (Dir t) \<Rightarrow> Inl (eisdir ''unlink'' p)
      | Some (File c t) \<Rightarrow> Inr (AList.delete p fs))"

definition parent_ok :: "filesystem \<Rightarrow> path \<Rightarrow> bool" where
  "parent_ok fs p = (ancestors p = [] \<or> is_Dir (map_of fs (last (ancestors p))))"

text \<open>
  \<open>fs.writeFile\<close> opens the path for writing: that fails on a directory, below a regular
  file and where the parent directory is missing.
\<close>

definition writeFile :: "filesystem \<Rightarrow> int \<Rightarrow> path \<Rightarrow> string \<Rightarrow> js_error + filesystem" where
  "writeFile fs now p data =
     (if is_Dir (map_of fs p) then Inl (eisdir ''open'' p)
      else if list_ex (\<lambda>a. is_File (map_of fs a)) (ancestors p) then Inl (enotdir ''open'' p)
      else if \<not> parent_ok fs p then Inl (enoent ''open'' p)
      else Inr (AList.update p (File data now) fs))"

text \<open>
  \<open>fs.readFile\<close>: a directory can be opened, the read fails then, and the error of a
  read names no path.
\<close>

definition readFile :: "filesystem \<Rightarrow> path \<Rightarrow> js_error + string" where
  "readFile fs p =
     (case map_of fs p of
        None \<Rightarrow> Inl (enoent ''open'' p)
      | Some (Dir t) \<Rightarrow>
          Inl (SystemError ''EISDIR'' ''EISDIR: illegal operation on a directory, read'')
      | Some (File c t) \<Rightarrow> Inr c)"







subsection \<open>The state of one run\<close>

text \<open>
  \<open>clock\<close> is what \<open>Date.now()\<close> returns (time does not advance during a call); \<open>sink\<close>
  holds the progress events delivered to the caller's callback, oldest first; \<open>spawns\<close> the
  argument vectors of the processes spawned so far.
\<close>

record state =
  files :: filesystem
  clock :: int
  sink :: "(int \<times> string) list"
  spawns :: "string list list"

text \<open>
  \<open>if (progressCallback) progressCallback(percent, message)\<close>; the callback is either null
  (\<open>cb = False\<close>) or a function that records the event and does not throw.
\<close>

definition emit :: "bool \<Rightarrow> int \<Rightarrow> string \<Rightarrow> state \<Rightarrow> state" where
  "emit cb percent msg st = (if cb then st\<lparr>sink := sink st @ [(percent, msg)]\<rparr> else st)"

text \<open>The percent values delivered to the sink between two states of one call.\<close>

definition delivered :: "state \<Rightarrow> state \<Rightarrow> int list" where
  "delivered st st' = map fst (drop (length (sink st)) (sink st'))"


subsection \<open>The format router\<close>

text \<open>
  The identifiers that the object literal of \<open>getConverter\<close> refers to. A scope says which
  identifiers are bound; \<open>module_scope\<close> is the scope of the module as it is written: its
  function declarations. It has no declaration (and no import) of \<open>convertPdfToImage\<close> or
  of \<open>convertArchive\<close>.
\<close>

datatype ident =
    ConvertImage
  | ConvertImageToPdf
  | ConvertPdfToImage
  | ConvertVideo
  | ConvertVideoToGif
  | ExtractAudio
  | ConvertAudio
  | ConvertPdfToText
  | ConvertArchive

fun ident_name :: "ident \<Rightarrow> string" where
  "ident_name ConvertImage = ''convertImage''"
| "ident_name ConvertImageToPdf = ''convertImageToPdf''"
| "ident_name ConvertPdfToImage = ''convertPdfToImage''"
| "ident_name ConvertVideo = ''convertVideo''"
| "ident_name ConvertVideoToGif = ''convertVideoToGif''"
| "ident_name ExtractAudio = ''extractAudio''"
| "ident_name ConvertAudio = ''convertAudio''"
| "ident_name ConvertPdfToText = ''convertPdfToText''"
| "ident_name ConvertArchive = ''convertArchive''"

fun module_scope :: "ident \<Rightarrow> bool" where
  "module_scope ConvertImage = True"
| "module_scope ConvertImageToPdf = True"
| "module_scope ConvertPdfToImage = False"
| "module_scope ConvertVideo = True"
| "module_scope ConvertVideoToGif = True"
| "module_scope ExtractAudio = True"
| "module_scope ConvertAudio = True"
| "module_scope ConvertPdfToText = True"
| "module_scope ConvertArchive = False"

text \<open>The properties of the object literal \<open>converters\<close>, in the order they are written.\<close>

definition converters_literal :: "(string \<times> ident) list" where
  "converters_literal =
     [(''jpg,jpeg,png,gif,bmp,webp,tiff->jpg,jpeg,png,webp,gif,bmp'', ConvertImage),
      (''jpg,jpeg,png,gif,bmp,webp,tiff->pdf'', ConvertImageToPdf),
      (''pdf->jpg,jpeg,png'', ConvertPdfToImage),
      (''mp4,avi,mov,mkv,webm,flv,3gp->mp4,avi,mov,webm'', ConvertVideo),
      (''mp4,avi,mov,mkv,webm,flv,3gp->gif'', ConvertVideoToGif),
      (''mp4,avi,mov,mkv,webm,flv,3gp->mp3,wav,aac'', ExtractAudio),
      (''mp3,wav,flac,m4a,aac,ogg,wma->mp3,wav,flac,m4a,aac,ogg'', ConvertAudio),
      (''pdf->txt'', ConvertPdfToText),
      (''zip,rar,7z->zip'', ConvertArchive)]"

text \<open>
  Evaluating the object literal evaluates the property values in order; a reference to an
  identifier that is not bound raises a ReferenceError.
\<close>

fun eval_properties ::
  "(ident \<Rightarrow> bool) \<Rightarrow> (string \<times> ident) list \<Rightarrow> js_error + (string \<times> ident) list" where
  "eval_properties scope [] = Inr []"
| "eval_properties scope ((key, f) # rest) =
     (if scope f
      then (case eval_properties scope rest of
              Inl e \<Rightarrow> Inl e
            | Inr vs \<Rightarrow> Inr ((key, f) # vs))
      else Inl (ReferenceError (ident_name f @ '' is not defined'')))"

text \<open>
  The loop over \<open>Object.entries(converters)\<close>: the first entry whose input formats include
  \<open>inputFormat\<close> and whose output formats include \<open>outputFormat\<close>; null (\<open>None\<close>) when
  there is none. A key without \<open>->\<close> leaves \<open>outputs\<close> undefined, and its \<open>split\<close> throws.
\<close>

fun find_converter ::
  "(string \<times> ident) list \<Rightarrow> string \<Rightarrow> string \<Rightarrow> js_error + ident option" where
  "find_converter [] inputFormat outputFormat = Inr None"
| "find_converter ((formats, converter) # rest) inputFormat outputFormat =
     (case split ''->'' formats of
        inputs # outputs # others \<Rightarrow>
          (if inputFormat \<in> set (split '','' inputs) \<and> outputFormat \<in> set (split '','' outputs)
           then Inr (Some converter)
           else find_converter rest inputFormat outputFormat)
      | _ \<Rightarrow> Inl (TypeError ''Cannot read properties of undefined (reading 'split')''))"

definition getConverter :: "(ident \<Rightarrow> bool) \<Rightarrow> string \<Rightarrow> string \<Rightarrow> js_error + ident option" where
  "getConverter scope inputFormat outputFormat =
     (case eval_properties scope converters_literal of
        Inl e \<Rightarrow> Inl e
      | Inr converters \<Rightarrow> find_converter converters inputFormat outputFormat)"

text \<open>
  The Capability Table as declared: the strategy that the first matching descriptor names.
  A pair is present in the table when this is \<open>Inr (Some f)\<close>.
\<close>

definition capability :: "string \<Rightarrow> string \<Rightarrow> js_error + ident option" where
  "capability inputFormat outputFormat = find_converter converters_literal inputFormat outputFormat"

subsection \<open>The conversion facade\<close>

definition OUTPUT_DIR :: "path \<Rightarrow> path" where
  "OUTPUT_DIR cwd = path_join [cwd, ''temp'', ''converted'']"

definition ensureOutputDir :: "path \<Rightarrow> state \<Rightarrow> unit outcome \<times> state" where
  "ensureOutputDir cwd st =
     (case access (files st) (OUTPUT_DIR cwd) of
        Inr u \<Rightarrow> (Fulfilled (), st)
      | Inl e \<Rightarrow>
          (case mkdir_recursive (files st) (clock st) (OUTPUT_DIR cwd) of
             Inl e' \<Rightarrow> (Rejected e', st)
           | Inr fs' \<Rightarrow> (Fulfilled (), st\<lparr>files := fs'\<rparr>)))"

record conversion_result =
  success :: bool
  outputPath :: path
  outputFileName :: string
  inputFormat :: string
  outputFormat :: string

text \<open>
  A strategy is called as \<open>converter(inputPath, outputPath, options, progressCallback)\<close>;
  \<open>run f\<close> is what the function bound to \<open>f\<close> does, external libraries and processes
  included. The facade is verified for every \<open>run\<close>.
\<close>

type_synonym 'o strategies =
  "ident \<Rightarrow> path \<Rightarrow> path \<Rightarrow> 'o \<Rightarrow> bool \<Rightarrow> state \<Rightarrow> unit outcome \<times> state"

definition inputExt_of :: "path \<Rightarrow> string" where
  "inputExt_of inputPath = drop 1 (toLowerCase (extname inputPath))"

text \<open>
  The output file name and the candidate output path; \<open>token\<close> is
  \<open>Math.random().toString(36).substr(2, 9)\<close>, whatever the generator gives.
\<close>

definition outputFileName_of :: "state \<Rightarrow> string \<Rightarrow> string \<Rightarrow> string" where
  "outputFileName_of st token fmt = show_int (clock st) @ ''_'' @ token @ ''.'' @ fmt"

definition outputPath_of :: "path \<Rightarrow> state \<Rightarrow> string \<Rightarrow> string \<Rightarrow> path" where
  "outputPath_of cwd st token fmt = path_join [OUTPUT_DIR cwd, outputFileName_of st token fmt]"

text \<open>
  The body of the \<open>try\<close> block of \<open>convertFile\<close>, with the constants computed
  before it: \<open>inputExt\<close>, \<open>outputFileName\<close> and \<open>outputPath\<close>.
\<close>

definition convertFile_try ::
  "'o strategies \<Rightarrow> (ident \<Rightarrow> bool) \<Rightarrow> path \<Rightarrow> string \<Rightarrow> string \<Rightarrow> path \<Rightarrow> string \<Rightarrow> 'o \<Rightarrow> bool
    \<Rightarrow> state \<Rightarrow> conversion_result outcome \<times> state" where
  "convertFile_try run scope inputPath inputExt fileName outPath fmt options cb st =
     (case getConverter scope inputExt fmt of
        Inl e \<Rightarrow> (Rejected e, st)
      | Inr None \<Rightarrow>
          (Rejected (Error (''Conversion from '' @ inputExt @ '' to '' @ fmt @ '' not supported'')),
           st)
      | Inr (Some converter) \<Rightarrow>
          (let st1 = emit cb 10 ''Starting conversion...'' st
           in case run converter inputPath outPath options cb st1 of
                (Rejected e, st2) \<Rightarrow> (Rejected e, st2)
              | (Pending, st2) \<Rightarrow> (Pending, st2)
              | (Fulfilled u, st2) \<Rightarrow>
                  (case access (files st2) outPath of
                     Inl e \<Rightarrow> (Rejected e, st2)
                   | Inr u' \<Rightarrow>
                       (Fulfilled \<lparr>success = True, outputPath = outPath,
                                   outputFileName = fileName,
                                   inputFormat = inputExt, outputFormat = fmt\<rparr>,
                        emit cb 100 ''Conversion completed!'' st2))))"

text \<open>\<open>try { await fs.unlink(p) } catch {}\<close>: the error of the delete is dropped.\<close>

definition discard :: "filesystem \<Rightarrow> path \<Rightarrow> filesystem" where
  "discard fs p = (case unlink fs p of Inl e \<Rightarrow> fs | Inr fs' \<Rightarrow> fs')"

text \<open>
  What the \<open>catch\<close> block throws for the value it caught:
  \<open>new Error(`Conversion failed: ${error.message}`)\<close>, or the TypeError of reading
  \<open>message\<close> when the value caught is null or undefined.
\<close>

definition conversion_failed :: "js_error \<Rightarrow> js_error" where
  "conversion_failed error =
     (case message error of
        Inl e \<Rightarrow> e
      | Inr m \<Rightarrow> Error (''Conversion failed: '' @ template m))"

definition convertFile ::
  "'o strategies \<Rightarrow> (ident \<Rightarrow> bool) \<Rightarrow> path \<Rightarrow> string \<Rightarrow> path \<Rightarrow> string \<Rightarrow> 'o \<Rightarrow> bool \<Rightarrow> state
    \<Rightarrow> conversion_result outcome \<times> state" where
  "convertFile run scope cwd token inputPath fmt options cb st =
     (case ensureOutputDir cwd st of
        (Rejected e, st1) \<Rightarrow> (Rejected e, st1)
      | (Pending, st1) \<Rightarrow> (Pending, st1)
      | (Fulfilled u, st1) \<Rightarrow>
          (let inputExt = inputExt_of inputPath;
               fileName = outputFileName_of st token fmt;
               outPath = outputPath_of cwd st token fmt
           in case convertFile_try run scope inputPath inputExt fileName outPath fmt options cb st1 of
                (Fulfilled r, st2) \<Rightarrow> (Fulfilled r, st2)
              | (Pending, st2) \<Rightarrow> (Pending, st2)
              | (Rejected error, st2) \<Rightarrow>
                  (Rejected (conversion_failed error),
                   st2\<lparr>files := discard (files st2) outPath\<rparr>)))"

subsection \<open>The process runner\<close>

text \<open>
  What the spawned process does is the list of the events it emits, in order: chunks on its
  standard error, \<open>close\<close> with the exit code (null when a signal ended it) and \<open>error\<close>.
  \<open>spawn\<close> itself may throw. A process that is never closed leaves the promise pending.
  \<open>Writes\<close> is no event for the runner: the process writes a file, at that moment.
\<close>

datatype proc_event =
    Stderr string
  | Close "int option"
  | ErrorEvent js_error
  | Writes path string

datatype child = SpawnThrows js_error | ChildProcess "proc_event list"

text \<open>\<open>\d{2}\<close> at the start of a string, read by \<open>parseInt\<close>.\<close>

definition two_digits :: "string \<Rightarrow> nat option" where
  "two_digits s =
     (case s of
        a # b # rest \<Rightarrow>
          (case (digit_val a, digit_val b) of
             (Some m, Some n) \<Rightarrow> Some (10 * m + n)
           | _ \<Rightarrow> None)
      | _ \<Rightarrow> None)"

text \<open>\<open>(\d{2}):(\d{2}):(\d{2})\<close> at the start of a string.\<close>

definition hms_at :: "string \<Rightarrow> (nat \<times> nat \<times> nat) option" where
  "hms_at s =
     (case (two_digits s, two_digits (drop 3 s), two_digits (drop 6 s)) of
        (Some hours, Some minutes, Some seconds) \<Rightarrow>
          (if take 1 (drop 2 s) = '':'' \<and> take 1 (drop 5 s) = '':''
           then Some (hours, minutes, seconds) else None)
      | _ \<Rightarrow> None)"

text \<open>\<open>output.match(/marker(\d{2}):(\d{2}):(\d{2})/)\<close>: the leftmost match.\<close>

fun match_marker :: "string \<Rightarrow> string \<Rightarrow> (nat \<times> nat \<times> nat) option" where
  "match_marker marker [] = None"
| "match_marker marker (c # cs) =
     (if take (length marker) (c # cs) = marker
      then (case hms_at (drop (length marker) (c # cs)) of
              Some r \<Rightarrow> Some r
            | None \<Rightarrow> match_marker marker cs)
      else match_marker marker cs)"

definition hms_seconds :: "nat \<times> nat \<times> nat \<Rightarrow> nat" where
  "hms_seconds r = (case r of (hours, minutes, seconds) \<Rightarrow> hours * 3600 + minutes * 60 + seconds)"

text \<open>
  \<open>Math.min(Math.round((time / duration) * 80) + 20, 95)\<close> for a positive duration.
  \<open>Math.round\<close> rounds a half up; the quotient is taken exactly here (the double arithmetic
  of the source can differ from it only where \<open>80 * time / duration\<close> is exactly a half).
\<close>

definition progress_percent :: "nat \<Rightarrow> nat \<Rightarrow> int" where
  "progress_percent t d = min (int ((160 * t + d) div (2 * d)) + 20) 95"

text \<open>The variables of one run: \<open>duration\<close>, \<open>time\<close>, and the promise it returned.\<close>

record runner =
  duration :: "nat option"
  time :: "nat option"
  promise :: "unit outcome"

text \<open>The handler of \<open>process.stderr.on('data', ...)\<close>.\<close>

definition on_data :: "bool \<Rightarrow> string \<Rightarrow> runner \<times> state \<Rightarrow> runner \<times> state" where
  "on_data cb output rs =
     (case rs of (r, st) \<Rightarrow>
        (let r1 = (case match_marker ''Duration: '' output of
                     Some hms \<Rightarrow> r\<lparr>duration := Some (hms_seconds hms)\<rparr>
                   | None \<Rightarrow> r)
         in case match_marker ''time='' output of
              None \<Rightarrow> (r1, st)
            | Some hms \<Rightarrow>
                (case duration r1 of
                   None \<Rightarrow> (r1, st)
                 | Some d \<Rightarrow>
                     if d = 0 then (r1, st)
                     else (let t = hms_seconds hms;
                               progress = progress_percent t d
                           in (r1\<lparr>time := Some t\<rparr>,
                               emit cb progress (''Processing... '' @ show_int progress @ ''%'') st)))))"

text \<open>\<open>resolve\<close> and \<open>reject\<close> settle the promise once; later calls change nothing.\<close>

definition settle :: "unit outcome \<Rightarrow> runner \<Rightarrow> runner" where
  "settle res r = (if promise r = Pending then r\<lparr>promise := res\<rparr> else r)"

definition show_code :: "int option \<Rightarrow> string" where
  "show_code code = (case code of None \<Rightarrow> ''null'' | Some c \<Rightarrow> show_int c)"

definition on_close :: "int option \<Rightarrow> runner \<Rightarrow> runner" where
  "on_close code r =
     (if code = Some 0 then settle (Fulfilled ()) r
      else settle (Rejected (Error (''FFmpeg process failed with code '' @ show_code code))) r)"

fun handle :: "bool \<Rightarrow> proc_event \<Rightarrow> runner \<times> state \<Rightarrow> runner \<times> state" where
  "handle cb (Stderr output) rs = on_data cb output rs"
| "handle cb (Close code) rs = (on_close code (fst rs), snd rs)"
| "handle cb (ErrorEvent e) rs = (settle (Rejected e) (fst rs), snd rs)"
| "handle cb (Writes p data) rs =
     (fst rs, (snd rs)\<lparr>files := AList.update p (File data (clock (snd rs))) (files (snd rs))\<rparr>)"

definition runFFmpeg :: "child \<Rightarrow> string list \<Rightarrow> bool \<Rightarrow> state \<Rightarrow> unit outcome \<times> state" where
  "runFFmpeg proc args cb st =
     (let st1 = emit cb 20 ''Starting FFmpeg process...'' st;
          st2 = st1\<lparr>spawns := spawns st1 @ [args]\<rparr>
      in case proc of
           SpawnThrows e \<Rightarrow> (Rejected e, st2)
         | ChildProcess events \<Rightarrow>
             (case fold (handle cb) events
                     (\<lparr>duration = None, time = None, promise = Pending\<rparr>, st2) of
                (r, st3) \<Rightarrow> (promise r, st3)))"




subsection \<open>Image to document\<close>

text \<open>
  The document that \<open>pdf-lib\<close> builds: pages with a size and the images drawn on them.
  What \<open>embedJpg\<close>, \<open>embedPng\<close> and \<open>save\<close> compute is a parameter;
  \<open>PDFDocument.create()\<close> gives the empty document.
\<close>

record pdf_image =
  img_width :: int
  img_height :: int

datatype draw_op = DrawImage pdf_image int int int int

record pdf_page =
  page_width :: int
  page_height :: int
  page_content :: "draw_op list"

record pdf_lib =
  embedJpg :: "string \<Rightarrow> js_error + pdf_image"
  embedPng :: "string \<Rightarrow> js_error + pdf_image"
  save :: "pdf_page list \<Rightarrow> js_error + string"

definition addPage :: "int \<times> int \<Rightarrow> pdf_page" where
  "addPage dims = \<lparr>page_width = fst dims, page_height = snd dims, page_content = []\<rparr>"

text \<open>\<open>page.drawImage(image, { x, y, width, height })\<close>.\<close>

definition drawImage :: "pdf_page \<Rightarrow> pdf_image \<Rightarrow> int \<Rightarrow> int \<Rightarrow> int \<Rightarrow> int \<Rightarrow> pdf_page" where
  "drawImage page img x y w h =
     page\<lparr>page_content := page_content page @ [DrawImage img x y w h]\<rparr>"

definition convertImageToPdf ::
  "pdf_lib \<Rightarrow> path \<Rightarrow> path \<Rightarrow> 'o \<Rightarrow> bool \<Rightarrow> state \<Rightarrow> unit outcome \<times> state" where
  "convertImageToPdf lib inputPath outPath options cb st =
     (let st1 = emit cb 20 ''Creating PDF document...'' st
      in case readFile (files st1) inputPath of
           Inl e \<Rightarrow> (Rejected e, st1)
         | Inr imageBytes \<Rightarrow>
             (let st2 = emit cb 40 ''Embedding image...'' st1;
                  ext = toLowerCase (extname inputPath)
              in case (if ext = ''.jpg'' \<or> ext = ''.jpeg'' then embedJpg lib imageBytes
                       else if ext = ''.png'' then embedPng lib imageBytes
                       else Inl (Error ''Unsupported image format for PDF conversion'')) of
                   Inl e \<Rightarrow> (Rejected e, st2)
                 | Inr img \<Rightarrow>
                     (let st3 = emit cb 60 ''Adding page to PDF...'' st2;
                          page = drawImage (addPage (img_width img, img_height img)) img
                                   0 0 (img_width img) (img_height img);
                          st4 = emit cb 80 ''Saving PDF...'' st3
                      in case save lib [page] of
                           Inl e \<Rightarrow> (Rejected e, st4)
                         | Inr pdfBytes \<Rightarrow>
                             (case writeFile (files st4) (clock st4) outPath pdfBytes of
                                Inl e \<Rightarrow> (Rejected e, st4)
                              | Inr fs' \<Rightarrow> (Fulfilled (), st4\<lparr>files := fs'\<rparr>)))))"

subsection \<open>Document to text\<close>

definition convertPdfToText ::
  "path \<Rightarrow> path \<Rightarrow> 'o \<Rightarrow> bool \<Rightarrow> state \<Rightarrow> unit outcome \<times> state" where
  "convertPdfToText inputPath outPath options cb st =
     (let st1 = emit cb 50 ''Extracting text from PDF...'' st
      in case writeFile (files st1) (clock st1) outPath ''PDF text extraction not implemented yet'' of
           Inl e \<Rightarrow> (Rejected e, st1)
         | Inr fs' \<Rightarrow> (Fulfilled (), st1\<lparr>files := fs'\<rparr>))"

subsection \<open>The other strategies\<close>

text \<open>
  The options of a request, with the types of the options table: a number of pixels, of
  frames, of seconds or of samples is an integer; \<open>quality\<close> is a number or a string; an
  option that the caller leaves out is \<open>None\<close>, and the default of the destructuring
  pattern applies to it.
\<close>

datatype jsval = Num int | Str string

record options =
  opt_quality :: "jsval option"
  opt_width :: "int option"
  opt_height :: "int option"
  opt_resize :: "string option"
  opt_resolution :: "string option"
  opt_fps :: "int option"
  opt_startTime :: "int option"
  opt_duration :: "int option"
  opt_bitrate :: "string option"
  opt_sampleRate :: "int option"

















subsection \<open>The retention sweeper\<close>











subsection \<open>Example runs\<close>

text \<open>Strategy behaviours: one writes the output file, one leaves a partial file and fails.\<close>

definition run_ok :: "unit strategies" where
  "run_ok f inputPath outPath options cb st =
     (Fulfilled (), st\<lparr>files := AList.update outPath (File ''converted'' (clock st)) (files st)\<rparr>)"


definition pdf_stub :: pdf_lib where
  "pdf_stub =
     \<lparr>embedJpg = (\<lambda>bytes. if bytes = ''JFIF'' then Inr \<lparr>img_width = 640, img_height = 480\<rparr>
                            else Inl (Error ''SOI not found in JPEG'')),
      embedPng = (\<lambda>bytes. Inl (ThrownValue ''The input is not a PNG file!'')),
      save = (\<lambda>pages. Inr ''%PDF-1.7'')\<rparr>"








text \<open>A working directory with nothing in it, one where \<open>temp\<close> is a regular file, one set up.\<close>

definition st_fresh :: state where
  "st_fresh = \<lparr>files = [(''/app'', Dir 0)], clock = 1730000000123, sink = [], spawns = []\<rparr>"


definition st_ready :: state where
  "st_ready = \<lparr>files = [(''/app'', Dir 0), (''/app/temp'', Dir 0), (''/app/temp/uploads'', Dir 0),
                         (''/app/temp/converted'', Dir 0),
                         (''/app/temp/uploads/photo.JPG'', File ''JFIF'' 1000),
                         (''/app/temp/uploads/anim.gif'', File ''GIF89a'' 1000),
                         (''/app/temp/uploads/report.pdf'', File ''%PDF-1.4 Quarterly report'' 1000)],
               clock = 1730000000123, sink = [], spawns = []\<rparr>"





section \<open>Properties\<close>

subsection \<open>Paths\<close>





































lemma path_join_closed:
  "path_join [''/app'', ''temp'', ''converted''] = ''/app/temp/converted''"
  "path_join [''/app/temp/converted'', ''1730000000123_k3x9q0abc./../../uploads/report.pdf'']
     = ''/app/temp/uploads/report.pdf''"
  "path_join [''/app/temp//uploads/'', ''./a.jpg''] = ''/app/temp/uploads/a.jpg''"
  "path_join [''a'', ''..'', ''..'', ''b''] = ''../b''"
  "path_join [''/a'', ''..'', ''..'', ''b/''] = ''/b/''"
  "path_join ['''', ''''] = ''.''"
  by code_simp+

subsection \<open>The format router\<close>

lemma eval_properties_module_scope:
  "eval_properties module_scope converters_literal =
     Inl (ReferenceError ''convertPdfToImage is not defined'')"
  by (simp add: converters_literal_def)

lemma getConverter_module_scope:
  "getConverter module_scope i fmt = Inl (ReferenceError ''convertPdfToImage is not defined'')"
  by (simp add: getConverter_def eval_properties_module_scope)

lemma eval_properties_Inr: "eval_properties scope xs = Inr ys \<Longrightarrow> ys = xs"
  by (induction xs arbitrary: ys) (auto split: if_splits sum.splits)


lemma getConverter_Inr: "getConverter scope i fmt = Inr r \<Longrightarrow> capability i fmt = Inr r"
  by (auto simp: getConverter_def capability_def split: sum.splits dest: eval_properties_Inr)


subsection \<open>The filesystem operations of the facade\<close>





lemma ensureOutputDir_cases:
  "ensureOutputDir cwd st = (Fulfilled (), st) \<and> map_of (files st) (OUTPUT_DIR cwd) \<noteq> None
   \<or> (\<exists>e. ensureOutputDir cwd st = (Rejected e, st) \<and> map_of (files st) (OUTPUT_DIR cwd) = None
          \<and> mkdir_recursive (files st) (clock st) (OUTPUT_DIR cwd) = Inl e)
   \<or> (\<exists>fs'. ensureOutputDir cwd st = (Fulfilled (), st\<lparr>files := fs'\<rparr>)
          \<and> map_of (files st) (OUTPUT_DIR cwd) = None
          \<and> mkdir_recursive (files st) (clock st) (OUTPUT_DIR cwd) = Inr fs')"
  by (auto simp: ensureOutputDir_def access_def split: option.splits sum.splits)


subsection \<open>The conversion facade\<close>


text \<open>
  In the scope of the module the facade never gets past the router: whatever the request,
  it fails once the output directory is ensured.
\<close>

lemma convertFile_module_scope:
  "convertFile run module_scope cwd token inputPath fmt options cb st =
     (case ensureOutputDir cwd st of
        (Fulfilled u, st1) \<Rightarrow>
          (Rejected (Error ''Conversion failed: convertPdfToImage is not defined''),
           st1\<lparr>files := discard (files st1) (outputPath_of cwd st token fmt)\<rparr>)
      | (Rejected e, st1) \<Rightarrow> (Rejected e, st1)
      | (Pending, st1) \<Rightarrow> (Pending, st1))"
  using ensureOutputDir_cases [of cwd st]
  by (auto simp: convertFile_def convertFile_try_def Let_def getConverter_module_scope
        conversion_failed_def)





text \<open>
  Claim C2 does not hold of the code. jpg to png is a pair of the Capability Table (the
  table routes it to \<open>convertImage\<close>) and the input file exists, yet the call is rejected
  before any strategy is reached; and so is every call of \<open>convertFile\<close> of the module,
  whatever the request, the strategies and the state: none returns a result.
\<close>

theorem convertFile_table_pair_fails:
  "capability (inputExt_of ''/app/temp/uploads/photo.JPG'') ''png'' = Inr (Some ConvertImage)
   \<and> map_of (files st_ready) ''/app/temp/uploads/photo.JPG'' = Some (File ''JFIF'' 1000)
   \<and> fst (convertFile run module_scope ''/app'' ''k3x9q0abc'' ''/app/temp/uploads/photo.JPG'' ''png''
            options cb st_ready)
       = Rejected (Error ''Conversion failed: convertPdfToImage is not defined'')
   \<and> \<not> is_Fulfilled (fst (convertFile run module_scope cwd token inputPath fmt options cb st))"
proof -
  have a: "capability (inputExt_of ''/app/temp/uploads/photo.JPG'') ''png'' = Inr (Some ConvertImage)"
    by code_simp
  have b: "map_of (files st_ready) ''/app/temp/uploads/photo.JPG'' = Some (File ''JFIF'' 1000)"
    by code_simp
  have e: "ensureOutputDir ''/app'' st_ready = (Fulfilled (), st_ready)"
    by code_simp
  have c: "fst (convertFile run module_scope ''/app'' ''k3x9q0abc'' ''/app/temp/uploads/photo.JPG'' ''png''
            options cb st_ready)
       = Rejected (Error ''Conversion failed: convertPdfToImage is not defined'')"
    by (simp add: convertFile_module_scope e)
  have d: "\<not> is_Fulfilled (fst (convertFile run module_scope cwd token inputPath fmt options cb st))"
    using ensureOutputDir_cases [of cwd st] by (auto simp: convertFile_module_scope)
  show ?thesis
    by (intro conjI a b c d)
qed




text \<open>
  Claim C10, as amended. The object literal of \<open>getConverter\<close> refers to
  \<open>convertPdfToImage\<close> (for \<open>pdf->jpg,jpeg,png\<close>) and to \<open>convertArchive\<close> (for
  \<open>zip,rar,7z->zip\<close>), and the module binds neither. So every call of \<open>getConverter\<close>
  raises the ReferenceError of the first of them instead of a strategy or null, and every
  call of \<open>convertFile\<close> fails without reaching a strategy: with a plain Error whose
  message is \<open>Conversion failed:\<close> followed by the message of that ReferenceError, or before
  that with the error of \<open>ensureOutputDir\<close>.
\<close>

theorem getConverter_raises_ReferenceError:
  "getConverter module_scope i fmt = Inl (ReferenceError ''convertPdfToImage is not defined'')
   \<and> (''pdf->jpg,jpeg,png'', ConvertPdfToImage) \<in> set converters_literal
   \<and> (''zip,rar,7z->zip'', ConvertArchive) \<in> set converters_literal
   \<and> \<not> module_scope ConvertPdfToImage \<and> \<not> module_scope ConvertArchive
   \<and> fst (convertFile run module_scope cwd token inputPath fmt options cb st) =
       (case fst (ensureOutputDir cwd st) of
          Rejected e \<Rightarrow> Rejected e
        | other \<Rightarrow> Rejected (Error ''Conversion failed: convertPdfToImage is not defined''))
   \<and> sink (snd (convertFile run module_scope cwd token inputPath fmt options cb st)) = sink st
   \<and> convertFile run' module_scope cwd token inputPath fmt options cb st =
       convertFile run module_scope cwd token inputPath fmt options cb st"
  using ensureOutputDir_cases [of cwd st]
  by (auto simp: convertFile_module_scope getConverter_module_scope converters_literal_def)

theorem getConverter_raises_ReferenceError_witness:
  "getConverter module_scope ''pdf'' ''txt'' = Inl (ReferenceError ''convertPdfToImage is not defined'')
   \<and> fst (convertFile run_ok module_scope ''/app'' ''k3x9q0abc'' ''/app/temp/uploads/anim.gif'' ''pdf''
            () True st_ready)
       = Rejected (Error ''Conversion failed: convertPdfToImage is not defined'')"
proof -
  have e: "fst (ensureOutputDir ''/app'' st_ready) = Fulfilled ()"
    by code_simp
  note t = getConverter_raises_ReferenceError [where i = "''pdf''" and fmt = "''txt''"]
  note u = getConverter_raises_ReferenceError [where run = run_ok and cwd = "''/app''"
      and token = "''k3x9q0abc''" and inputPath = "''/app/temp/uploads/anim.gif''" and fmt = "''pdf''"
      and options = "()" and cb = True and st = st_ready]
  from t have t1: "getConverter module_scope ''pdf'' ''txt''
                     = Inl (ReferenceError ''convertPdfToImage is not defined'')"
    by (rule conjunct1)
  from u have u1: "fst (convertFile run_ok module_scope ''/app'' ''k3x9q0abc''
                          ''/app/temp/uploads/anim.gif'' ''pdf'' () True st_ready)
       = Rejected (Error ''Conversion failed: convertPdfToImage is not defined'')"
    by (simp only: e outcome.case)
  show ?thesis
    by (intro conjI t1 u1)
qed

text \<open>
  The claim as stated fails for \<open>convertFile\<close>: what its caller gets is a plain Error made
  in the \<open>catch\<close> block, not the ReferenceError.
\<close>

theorem convertFile_error_not_ReferenceError:
  "fst (convertFile run_ok module_scope ''/app'' ''k3x9q0abc'' ''/app/temp/uploads/report.pdf'' ''txt''
          () True st_ready)
     = Rejected (Error ''Conversion failed: convertPdfToImage is not defined'')
   \<and> fst (convertFile run_ok module_scope ''/app'' ''k3x9q0abc'' ''/app/temp/uploads/report.pdf'' ''txt''
          () True st_ready)
     \<noteq> Rejected (ReferenceError ''convertPdfToImage is not defined'')"
  by code_simp

subsection \<open>The process runner\<close>















text \<open>The rounding of \<open>progress_percent\<close>: to the nearest integer, a half upwards.\<close>

lemma progress_percent_rounds:
  fixes t d :: nat
  assumes "0 < d"
  shows "2 * d * ((160 * t + d) div (2 * d)) \<le> 160 * t + d
         \<and> 160 * t + d < 2 * d * ((160 * t + d) div (2 * d) + 1)"
proof -
  have "2 * d * ((160 * t + d) div (2 * d)) \<le> 160 * t + d"
    by (rule times_div_less_eq_dividend)
  moreover have "160 * t + d < 2 * d + 2 * d * ((160 * t + d) div (2 * d))"
    using dividend_less_times_div [of "2 * d" "160 * t + d"] assms by simp
  ultimately show ?thesis by (simp add: algebra_simps)
qed


subsection \<open>The cached total and the events of a run\<close>



















text \<open>
  The percents follow the elapsed markers of the process: they are non-decreasing when the
  markers are, and not otherwise.
\<close>

lemma runFFmpeg_percent_follows_elapsed:
  "delivered st_fresh
     (snd (runFFmpeg (ChildProcess [Stderr ''Duration: 00:00:10.00'', Stderr ''time=00:00:08.00'',
                                    Stderr ''time=00:00:02.00'', Close (Some 0)])
             [''-i'', ''in.mp4'', ''out.avi''] True st_fresh)) = [20, 84, 36]"
  by code_simp



subsection \<open>The strategies\<close>

lemma files_emit: "files (emit cb p m st) = files st"
  by (simp add: emit_def)

lemma clock_emit: "clock (emit cb p m st) = clock st"
  by (simp add: emit_def)

lemma map_of_writeFile:
  "writeFile fs now p content = Inr fs' \<Longrightarrow> map_of fs' q = (if q = p then Some (File content now) else map_of fs q)"
  by (auto simp: writeFile_def update_conv' split: if_splits)

text \<open>
  Claim C7. For a source file that can be read: when its lower-cased extension is none of
  \<open>.jpg\<close>, \<open>.jpeg\<close> and \<open>.png\<close>, \<open>convertImageToPdf\<close> fails with
  \<open>Unsupported image format for PDF conversion\<close> and writes nothing; when it is fulfilled,
  the source bytes were embedded by one of exactly two embedders (\<open>embedJpg\<close> for
  \<open>.jpg\<close> and \<open>.jpeg\<close>, \<open>embedPng\<close> for \<open>.png\<close>), and the file at the output path
  is the saved document of one page, sized to the width and height of the image, on which
  the image is drawn at (0, 0) with that width and height.
\<close>

theorem convertImageToPdf_embeds:
  assumes "readFile (files st) inputPath = Inr imageBytes"
  shows "(toLowerCase (extname inputPath) \<notin> {''.jpg'', ''.jpeg'', ''.png''} \<longrightarrow>
            fst (convertImageToPdf lib inputPath outPath options cb st) =
              Rejected (Error ''Unsupported image format for PDF conversion'')
            \<and> files (snd (convertImageToPdf lib inputPath outPath options cb st)) = files st)
         \<and> (fst (convertImageToPdf lib inputPath outPath options cb st) = Fulfilled () \<longrightarrow>
            (\<exists>img pdfBytes.
               (toLowerCase (extname inputPath) \<in> {''.jpg'', ''.jpeg''} \<and> embedJpg lib imageBytes = Inr img
                \<or> toLowerCase (extname inputPath) = ''.png'' \<and> embedPng lib imageBytes = Inr img)
               \<and> save lib [\<lparr>page_width = img_width img, page_height = img_height img,
                              page_content = [DrawImage img 0 0 (img_width img) (img_height img)]\<rparr>]
                   = Inr pdfBytes
               \<and> map_of (files (snd (convertImageToPdf lib inputPath outPath options cb st))) outPath
                   = Some (File pdfBytes (clock st))))"
  using assms
  by (auto simp: convertImageToPdf_def Let_def files_emit clock_emit addPage_def drawImage_def
        split: sum.splits if_splits dest: map_of_writeFile)

theorem convertImageToPdf_embeds_witness:
  "readFile (files st_ready) ''/app/temp/uploads/photo.JPG'' = Inr ''JFIF''
   \<and> fst (convertImageToPdf pdf_stub ''/app/temp/uploads/photo.JPG'' ''/app/temp/converted/1_k3x9q0abc.pdf''
            () True st_ready) = Fulfilled ()
   \<and> (\<exists>img pdfBytes.
         (toLowerCase (extname ''/app/temp/uploads/photo.JPG'') \<in> {''.jpg'', ''.jpeg''}
            \<and> embedJpg pdf_stub ''JFIF'' = Inr img
          \<or> toLowerCase (extname ''/app/temp/uploads/photo.JPG'') = ''.png''
            \<and> embedPng pdf_stub ''JFIF'' = Inr img)
         \<and> save pdf_stub [\<lparr>page_width = img_width img, page_height = img_height img,
                             page_content = [DrawImage img 0 0 (img_width img) (img_height img)]\<rparr>]
             = Inr pdfBytes
         \<and> map_of (files (snd (convertImageToPdf pdf_stub ''/app/temp/uploads/photo.JPG''
                                  ''/app/temp/converted/1_k3x9q0abc.pdf'' () True st_ready)))
                  ''/app/temp/converted/1_k3x9q0abc.pdf''
             = Some (File pdfBytes (clock st_ready)))
   \<and> readFile (files st_ready) ''/app/temp/uploads/anim.gif'' = Inr ''GIF89a''
   \<and> toLowerCase (extname ''/app/temp/uploads/anim.gif'') \<notin> {''.jpg'', ''.jpeg'', ''.png''}
   \<and> fst (convertImageToPdf pdf_stub ''/app/temp/uploads/anim.gif'' ''/app/temp/converted/1_k3x9q0abc.pdf''
            () True st_ready)
       = Rejected (Error ''Unsupported image format for PDF conversion'')
   \<and> files (snd (convertImageToPdf pdf_stub ''/app/temp/uploads/anim.gif''
                    ''/app/temp/converted/1_k3x9q0abc.pdf'' () True st_ready))
       = files st_ready"
proof -
  have h1: "readFile (files st_ready) ''/app/temp/uploads/photo.JPG'' = Inr ''JFIF''"
    by code_simp
  have h2: "fst (convertImageToPdf pdf_stub ''/app/temp/uploads/photo.JPG''
                   ''/app/temp/converted/1_k3x9q0abc.pdf'' () True st_ready) = Fulfilled ()"
    by code_simp
  have h3: "readFile (files st_ready) ''/app/temp/uploads/anim.gif'' = Inr ''GIF89a''"
    by code_simp
  have h4: "toLowerCase (extname ''/app/temp/uploads/anim.gif'') \<notin> {''.jpg'', ''.jpeg'', ''.png''}"
    by code_simp
  note a = convertImageToPdf_embeds [OF h1, where lib = pdf_stub
      and outPath = "''/app/temp/converted/1_k3x9q0abc.pdf''" and options = "()" and cb = True]
  note b = convertImageToPdf_embeds [OF h3, where lib = pdf_stub
      and outPath = "''/app/temp/converted/1_k3x9q0abc.pdf''" and options = "()" and cb = True]
  show ?thesis
    using a b h1 h2 h3 h4 by blast
qed

lemma map_of_writeFile_same:
  "writeFile fs now p content = Inr fs' \<Longrightarrow> map_of fs' p = Some (File content now)"
  by (simp add: map_of_writeFile)

lemma convertPdfToText_content:
  "fst (convertPdfToText inputPath outPath options cb st) = Fulfilled () \<Longrightarrow>
     map_of (files (snd (convertPdfToText inputPath outPath options cb st))) outPath
       = Some (File ''PDF text extraction not implemented yet'' (clock st))"
  by (auto simp: convertPdfToText_def Let_def files_emit clock_emit
        split: sum.splits dest: map_of_writeFile_same)

text \<open>
  Claim C8 does not hold of the code: \<open>convertPdfToText\<close> reports success and the file it
  writes holds the fixed message, for a document with text in it as for an input path at
  which there is nothing (the input is never read).
\<close>

theorem convertPdfToText_writes_placeholder:
  "readFile (files st_ready) ''/app/temp/uploads/report.pdf'' = Inr ''%PDF-1.4 Quarterly report''
   \<and> fst (convertPdfToText ''/app/temp/uploads/report.pdf'' ''/app/temp/converted/1_k3x9q0abc.txt''
            () True st_ready) = Fulfilled ()
   \<and> map_of (files (snd (convertPdfToText ''/app/temp/uploads/report.pdf''
                           ''/app/temp/converted/1_k3x9q0abc.txt'' () True st_ready)))
        ''/app/temp/converted/1_k3x9q0abc.txt''
       = Some (File ''PDF text extraction not implemented yet'' 1730000000123)
   \<and> map_of (files st_ready) ''/app/temp/uploads/missing.pdf'' = None
   \<and> fst (convertPdfToText ''/app/temp/uploads/missing.pdf'' ''/app/temp/converted/1_k3x9q0abc.txt''
            () True st_ready) = Fulfilled ()
   \<and> map_of (files (snd (convertPdfToText ''/app/temp/uploads/missing.pdf''
                           ''/app/temp/converted/1_k3x9q0abc.txt'' () True st_ready)))
        ''/app/temp/converted/1_k3x9q0abc.txt''
       = Some (File ''PDF text extraction not implemented yet'' 1730000000123)"
  by code_simp

subsection \<open>The order of the progress events\<close>


















subsection \<open>The retention sweeper\<close>






















end
